theory Spec2Isabelle
  imports Complex_Main "HOL-Library.Sublist"
begin

section \<open>Financing engine (services/financing.ts)\<close>

text \<open>
  JavaScript numbers are modelled as real numbers: arithmetic is exact, and the values
  NaN and Infinity do not exist in the model. \<open>Math.round\<close> rounds to the nearest
  integer, a half going up. \<open>Math.pow\<close> is the real power, which agrees with
  JavaScript wherever the base is positive. The engine calls it with the base
  \<open>1 + apr / 1200\<close> only, which is positive for every APR above -1200; below that
  the model says nothing about the power.
  The lease calculator is given a second time further down, with the rounding of
  double precision explicit in every operation.
\<close>

definition Math_round :: "real \<Rightarrow> real" where
  "Math_round x = of_int \<lfloor>x + 1 / 2\<rfloor>"

definition Math_pow :: "real \<Rightarrow> real \<Rightarrow> real" where
  "Math_pow x y = x powr y"

text \<open>The interface \<open>FinancingParams\<close> of shared/types.ts. An absent (or null)
  \<open>residualValue\<close> is \<open>None\<close>.\<close>

record FinancingParams =
  price :: real
  downPayment :: real
  apr :: real
  termMonths :: real
  isLease :: bool
  isSubscription :: bool
  residualValue :: "real option"
  tradeInValue :: real
  taxRate :: real

datatype scenario = Purchase | Lease | Subscription

text \<open>The \<open>breakdown\<close> object of a \<open>PaymentCalculation\<close>: every key but
  \<open>taxes\<close> is optional.\<close>

record Breakdown =
  principal :: "real option"
  interest :: "real option"
  taxes :: real
  tradeIn :: "real option"
  depreciation :: "real option"
  finance :: "real option"
  vehicle :: "real option"
  insurance :: "real option"
  maintenance :: "real option"

definition no_breakdown :: Breakdown where
  "no_breakdown = \<lparr>principal = None, interest = None, taxes = 0, tradeIn = None,
     depreciation = None, finance = None, vehicle = None, insurance = None,
     maintenance = None\<rparr>"

text \<open>The interface \<open>PaymentCalculation\<close>. Its field \<open>residualValue\<close> is
  written \<open>residualValue'\<close> here, the unprimed name being the field of the parameters.\<close>

record PaymentCalculation =
  monthlyPayment :: real
  totalCost :: real
  totalInterest :: "real option"
  residualValue' :: "real option"
  breakdown :: Breakdown
  type :: scenario

text \<open>\<open>throw new Error(message)\<close>.\<close>

datatype error = Error string

definition calculatePurchase :: "FinancingParams \<Rightarrow> error + PaymentCalculation" where
  "calculatePurchase params =
    (if price params \<le> 0 then Inl (Error ''Price must be positive'')
     else if termMonths params \<le> 0 then Inl (Error ''Term must be positive'')
     else if downPayment params < 0 then Inl (Error ''Down payment cannot be negative'')
     else if tradeInValue params < 0 then Inl (Error ''Trade-in value cannot be negative'')
     else if taxRate params < 0 \<or> taxRate params > 1
       then Inl (Error ''Tax rate must be between 0 and 1'')
     else
       let tax = price params * taxRate params;
           adjustedPrice = price params + tax;
           netPrice = adjustedPrice - tradeInValue params - downPayment params
       in if netPrice \<le> 0 then
            Inr \<lparr>monthlyPayment = 0,
                 totalCost = downPayment params + tradeInValue params,
                 totalInterest = Some 0,
                 residualValue' = None,
                 breakdown = no_breakdown\<lparr>principal := Some 0, interest := Some 0,
                   taxes := tax, tradeIn := Some (tradeInValue params)\<rparr>,
                 type = Purchase\<rparr>
          else
            let monthlyRate = apr params / 100 / 12;
                monthlyPayment' =
                  (if monthlyRate = 0 \<or> apr params = 0 then netPrice / termMonths params
                   else
                     let numerator = netPrice * monthlyRate
                           * Math_pow (1 + monthlyRate) (termMonths params);
                         denominator = Math_pow (1 + monthlyRate) (termMonths params) - 1
                     in numerator / denominator);
                totalCost' = monthlyPayment' * termMonths params + downPayment params
                               + tradeInValue params;
                totalInterest' = totalCost' - adjustedPrice
            in Inr \<lparr>monthlyPayment = Math_round monthlyPayment',
                    totalCost = Math_round totalCost',
                    totalInterest = Some (Math_round totalInterest'),
                    residualValue' = None,
                    breakdown = no_breakdown\<lparr>principal := Some (Math_round netPrice),
                      interest := Some (Math_round totalInterest'),
                      taxes := Math_round tax, tradeIn := Some (tradeInValue params)\<rparr>,
                    type = Purchase\<rparr>)"

text \<open>\<open>residualValue || Math.round(price * 0.55)\<close>: the left operand is taken when
  it is truthy, that is, present and not zero.\<close>

definition residual_or_default :: "real option \<Rightarrow> real \<Rightarrow> real" where
  "residual_or_default rv p =
     (case rv of None \<Rightarrow> Math_round (p * 0.55)
      | Some v \<Rightarrow> if v = 0 then Math_round (p * 0.55) else v)"

definition calculateLease :: "FinancingParams \<Rightarrow> error + PaymentCalculation" where
  "calculateLease params =
    (if price params \<le> 0 then Inl (Error ''Price must be positive'')
     else if termMonths params \<le> 0 then Inl (Error ''Term must be positive'')
     else if downPayment params < 0 then Inl (Error ''Down payment cannot be negative'')
     else
       let tax = price params * taxRate params;
           adjustedPrice = price params + tax;
           netPrice = adjustedPrice - tradeInValue params - downPayment params;
           residual' = residual_or_default (residualValue params) (price params)
       in if residual' \<ge> netPrice
          then Inl (Error ''Residual value cannot exceed net price'')
          else
            let depreciation' = netPrice - residual';
                monthlyDepreciation = depreciation' / termMonths params;
                moneyFactor = apr params / 2400;
                monthlyFinance = (netPrice + residual') * moneyFactor;
                monthlyPayment' = monthlyDepreciation + monthlyFinance;
                totalCost' = monthlyPayment' * termMonths params + downPayment params
                               + tradeInValue params
            in Inr \<lparr>monthlyPayment = Math_round monthlyPayment',
                    totalCost = Math_round totalCost',
                    totalInterest = None,
                    residualValue' = Some residual',
                    breakdown = no_breakdown\<lparr>depreciation := Some (Math_round monthlyDepreciation),
                      finance := Some (Math_round monthlyFinance),
                      taxes := Math_round tax, tradeIn := Some (tradeInValue params)\<rparr>,
                    type = Lease\<rparr>)"

definition calculateSubscription :: "FinancingParams \<Rightarrow> error + PaymentCalculation" where
  "calculateSubscription params =
    (if price params \<le> 0 then Inl (Error ''Price must be positive'')
     else if termMonths params \<le> 0 then Inl (Error ''Term must be positive'')
     else
       let tax = price params * taxRate params;
           adjustedPrice = price params + tax;
           netPrice = adjustedPrice - tradeInValue params - downPayment params;
           vehiclePortion = (netPrice * 0.6) / termMonths params;
           insurance' = 150;
           maintenance' = 100;
           monthlyPayment' = vehiclePortion + insurance' + maintenance';
           totalCost' = monthlyPayment' * termMonths params + downPayment params
                          + tradeInValue params
       in Inr \<lparr>monthlyPayment = Math_round monthlyPayment',
               totalCost = Math_round totalCost',
               totalInterest = None,
               residualValue' = None,
               breakdown = no_breakdown\<lparr>vehicle := Some (Math_round vehiclePortion),
                 insurance := Some insurance', maintenance := Some maintenance',
                 taxes := Math_round tax, tradeIn := Some (tradeInValue params)\<rparr>,
               type = Subscription\<rparr>)"

text \<open>\<open>calculateAllScenarios\<close> evaluates the three calculators in the order buy,
  lease, subscription; the first one that throws ends the call.\<close>

record AllScenarios =
  buy :: PaymentCalculation
  lease :: PaymentCalculation
  subscription :: PaymentCalculation

definition calculateAllScenarios :: "FinancingParams \<Rightarrow> error + AllScenarios" where
  "calculateAllScenarios params =
    (case calculatePurchase params of Inl e \<Rightarrow> Inl e
     | Inr b \<Rightarrow>
       (case calculateLease params of Inl e \<Rightarrow> Inl e
        | Inr l \<Rightarrow>
          (case calculateSubscription params of Inl e \<Rightarrow> Inl e
           | Inr s \<Rightarrow> Inr \<lparr>buy = b, lease = l, subscription = s\<rparr>)))"

text \<open>The fixture \<open>baseParams\<close> of the engine's unit tests.\<close>

definition baseParams :: FinancingParams where
  "baseParams = \<lparr>price = 30000, downPayment = 2000, apr = 5.5, termMonths = 60,
     isLease = False, isSubscription = False, residualValue = None,
     tradeInValue = 0, taxRate = 0.08\<rparr>"


text \<open>The net financed amount: price plus tax, less trade-in and down payment.\<close>

definition net_amount :: "FinancingParams \<Rightarrow> real" where
  "net_amount p = price p + price p * taxRate p - tradeInValue p - downPayment p"





subsection \<open>The lease calculator in rounded arithmetic\<close>

text \<open>
  The engine computes in IEEE double precision: the result of every operation, and the
  value of every decimal literal, is rounded to the nearest number with a 53-bit
  significand, a tie going to the even significand. \<open>fl64\<close> is that rounding on the
  reals. Overflow and subnormal numbers are left out: the exponent is unbounded.
\<close>

definition round_even :: "real \<Rightarrow> int" where
  "round_even y =
     (let f = \<lfloor>y\<rfloor>; d = y - of_int f
      in if d < 1 / 2 then f else if 1 / 2 < d then f + 1 else if even f then f else f + 1)"

definition fl64 :: "real \<Rightarrow> real" where
  "fl64 x =
     (if x = 0 then 0
      else let e = \<lfloor>log 2 \<bar>x\<bar>\<rfloor>; u = 2 powr (of_int e - 52)
           in of_int (round_even (x / u)) * u)"

text \<open>
  \<open>calculateLease\<close> once more, with the rounding \<open>fl\<close> of the arithmetic as a
  parameter: it is applied to each operation in the order the source evaluates it and
  to the literal \<open>0.55\<close>. The checks, the comparisons and \<open>Math.round\<close> are exact
  on numbers that are already rounded. With the identity for \<open>fl\<close> this is
  \<open>calculateLease\<close>; with \<open>fl64\<close> it is the arithmetic of the engine.
\<close>

definition calculateLease_fl :: "(real \<Rightarrow> real) \<Rightarrow> FinancingParams \<Rightarrow> error + PaymentCalculation" where
  "calculateLease_fl fl params =
    (if price params \<le> 0 then Inl (Error ''Price must be positive'')
     else if termMonths params \<le> 0 then Inl (Error ''Term must be positive'')
     else if downPayment params < 0 then Inl (Error ''Down payment cannot be negative'')
     else
       let tax = fl (price params * taxRate params);
           adjustedPrice = fl (price params + tax);
           netPrice = fl (fl (adjustedPrice - tradeInValue params) - downPayment params);
           residual' =
             (case residualValue params of
                None \<Rightarrow> Math_round (fl (price params * fl 0.55))
              | Some v \<Rightarrow> if v = 0 then Math_round (fl (price params * fl 0.55)) else v)
       in if residual' \<ge> netPrice
          then Inl (Error ''Residual value cannot exceed net price'')
          else
            let depreciation' = fl (netPrice - residual');
                monthlyDepreciation = fl (depreciation' / termMonths params);
                moneyFactor = fl (apr params / 2400);
                monthlyFinance = fl (fl (netPrice + residual') * moneyFactor);
                monthlyPayment' = fl (monthlyDepreciation + monthlyFinance);
                totalCost' = fl (fl (fl (monthlyPayment' * termMonths params)
                                      + downPayment params) + tradeInValue params)
            in Inr \<lparr>monthlyPayment = Math_round monthlyPayment',
                    totalCost = Math_round totalCost',
                    totalInterest = None,
                    residualValue' = Some residual',
                    breakdown = no_breakdown\<lparr>depreciation := Some (Math_round monthlyDepreciation),
                      finance := Some (Math_round monthlyFinance),
                      taxes := Math_round tax, tradeIn := Some (tradeInValue params)\<rparr>,
                    type = Lease\<rparr>)"

text \<open>A lease whose total cost is the tie 11037.5 in exact arithmetic and
  11037.499999999998 in double precision.\<close>

definition leaseTie :: FinancingParams where
  "leaseTie = \<lparr>price = 16645, downPayment = 0, apr = 5.5, termMonths = 60,
     isLease = True, isSubscription = False, residualValue = None,
     tradeInValue = 0, taxRate = 0\<rparr>"

section \<open>Natural-language understanding (services/nlu.ts and utils/nlu.js)\<close>

text \<open>
  Query text is modelled as a string of ASCII characters. \<open>toLowerCase\<close> maps the
  letters A to Z to a to z and leaves every other character as it is;
  \<open>text.includes(s)\<close> holds when \<open>s\<close> occurs in \<open>text\<close> as a contiguous run.
\<close>

definition toLowerChar :: "char \<Rightarrow> char" where
  "toLowerChar c =
     (let n = (of_char c :: nat) in if 65 \<le> n \<and> n \<le> 90 then char_of (n + 32) else c)"

definition toLowerCase :: "string \<Rightarrow> string" where
  "toLowerCase text = map toLowerChar text"

definition includes_str :: "string \<Rightarrow> string \<Rightarrow> bool" where
  "includes_str text s = sublist s text"

subsection \<open>Intent\<close>

text \<open>
  Each intent pattern is a regular expression that is an alternation of literal words
  under the flag \<open>i\<close>, so it is kept as the list of its alternatives, and
  \<open>pattern.test(text)\<close> holds when one of them occurs in the text, letter case ignored.
  The alternative \<open>compared? to\<close> stands for the two words \<open>compared to\<close> and
  \<open>compare to\<close>.
\<close>

type_synonym pattern = "string list"

definition test :: "pattern \<Rightarrow> string \<Rightarrow> bool" where
  "test alternatives text = list_ex (includes_str (toLowerCase text)) alternatives"

datatype intent = Search | Compare | Filter | Finance

text \<open>\<open>detectIntent\<close> of services/nlu.ts: three tests in a fixed order.\<close>

definition detectIntent :: "string \<Rightarrow> intent" where
  "detectIntent text =
    (let lowerText = toLowerCase text in
     if test [''vs'', ''versus'', ''compared to'', ''compare to'', ''compare''] lowerText
       then Compare
     else if test [''finance'', ''payment'', ''lease'', ''buy'', ''purchase'', ''monthly'',
                   ''afford'', ''price'', ''cost''] lowerText
       then Finance
     else if test [''filter'', ''only'', ''just'', ''with'', ''has'', ''need'', ''must''] lowerText
       then Filter
     else Search)"

text \<open>\<open>detectIntent\<close> of utils/nlu.js: a loop over the entries of the table
  \<open>INTENT_PATTERNS\<close>, in the order the object literal lists them, that returns the
  intent of the first pattern that matches.\<close>

definition INTENT_PATTERNS :: "(intent \<times> pattern) list" where
  "INTENT_PATTERNS =
    [(Search, [''show'', ''find'', ''search'', ''look for'', ''display'', ''list'', ''get'',
               ''see'', ''want'', ''need'', ''looking for'']),
     (Compare, [''compare'', ''vs'', ''versus'', ''compared to'', ''comparison'',
                ''difference'', ''different'', ''versus'', ''against'']),
     (Filter, [''filter'', ''only'', ''just'', ''with'', ''has'', ''have'', ''need'', ''must'']),
     (Finance, [''finance'', ''payment'', ''lease'', ''buy'', ''purchase'', ''monthly'',
                ''afford'', ''price'', ''cost''])]"

fun first_intent :: "(intent \<times> pattern) list \<Rightarrow> string \<Rightarrow> intent" where
  "first_intent [] text = Search"
| "first_intent ((intent, pattern) # rest) text =
     (if test pattern text then intent else first_intent rest text)"

definition detectIntent_js :: "string \<Rightarrow> intent" where
  "detectIntent_js text = first_intent INTENT_PATTERNS text"

subsection \<open>Price range\<close>

text \<open>The result object: an absent (or null) bound is \<open>None\<close>. The fields are
  \<open>min\<close> and \<open>max\<close> in the source.\<close>

record PriceRange =
  min_bound :: "nat option"
  max_bound :: "nat option"

text \<open>The character classes \<open>\d\<close> and \<open>\s\<close> on ASCII text.\<close>

definition isDigit :: "char \<Rightarrow> bool" where
  "isDigit c \<longleftrightarrow> c \<in> set ''0123456789''"

definition isSpace :: "char \<Rightarrow> bool" where
  "isSpace c \<longleftrightarrow> c \<in> set [CHR '' '', CHR 0x09, CHR 0x0A, CHR 0x0B, CHR 0x0C, CHR 0x0D]"

text \<open>
  The capture group \<open>(\d{1,3}(?:,\d{3})*(?:k|thousand)?)\<close>, matched at the head of
  a string: the group and the rest of the string. Each part is greedy: one to three
  digits, then every group of a comma and three digits, then the suffix when there is
  one. In the three expressions below a shorter choice is always followed by a
  character (a digit, a comma, \<open>k\<close> or \<open>t\<close>) that nothing after the group accepts, so
  the greedy choice is the only one that can match.
\<close>

definition digits_1_3 :: "string \<Rightarrow> (string \<times> string) option" where
  "digits_1_3 s =
     (let d = takeWhile isDigit (take 3 s)
      in if d = [] then None else Some (d, drop (length d) s))"

fun comma_groups :: "string \<Rightarrow> string \<times> string" where
  "comma_groups (c # d1 # d2 # d3 # rest) =
     (if c = CHR '','' \<and> isDigit d1 \<and> isDigit d2 \<and> isDigit d3
      then (case comma_groups rest of (g, r) \<Rightarrow> (c # d1 # d2 # d3 # g, r))
      else ([], c # d1 # d2 # d3 # rest))"
| "comma_groups s = ([], s)"

definition unit_suffix :: "string \<Rightarrow> string \<times> string" where
  "unit_suffix s =
     (if prefix ''k'' s then (''k'', drop 1 s)
      else if prefix ''thousand'' s then (''thousand'', drop 8 s)
      else ([], s))"

definition price_token :: "string \<Rightarrow> (string \<times> string) option" where
  "price_token s =
     (case digits_1_3 s of
        None \<Rightarrow> None
      | Some (d, r1) \<Rightarrow>
          (case comma_groups r1 of (g, r2) \<Rightarrow>
             (case unit_suffix r2 of (u, r3) \<Rightarrow> Some (d @ g @ u, r3))))"

text \<open>\<open>\s*\<close> and \<open>\$?\<close> at the head of a string: what is left after them.\<close>

definition skip_spaces :: "string \<Rightarrow> string" where
  "skip_spaces s = dropWhile isSpace s"

definition opt_dollar :: "string \<Rightarrow> string" where
  "opt_dollar s = (case s of [] \<Rightarrow> [] | c # r \<Rightarrow> if c = CHR ''$'' then r else c # r)"

text \<open>\<open>String.prototype.match\<close> without the flag \<open>g\<close>: the match at the leftmost
  position where the expression matches.\<close>

fun first_match :: "(string \<Rightarrow> 'a option) \<Rightarrow> string \<Rightarrow> 'a option" where
  "first_match m [] = m []"
| "first_match m (c # s) =
     (case m (c # s) of Some r \<Rightarrow> Some r | None \<Rightarrow> first_match m s)"

text \<open>
  \<open>/under\s*\$?(...)/i\<close> and \<open>/(?:over|above|more than)\s*\$?(...)/i\<close>: one of
  the keywords, white space, an optional dollar sign, the group. The text matched
  against is already in lower case, so the flag \<open>i\<close> changes nothing.
\<close>

definition bound_after :: "string list \<Rightarrow> string \<Rightarrow> string option" where
  "bound_after keywords s =
     (case filter (\<lambda>kw. prefix kw s) keywords of
        [] \<Rightarrow> None
      | kw # _ \<Rightarrow> map_option fst (price_token (opt_dollar (skip_spaces (drop (length kw) s)))))"

definition underMatch :: "string \<Rightarrow> string option" where
  "underMatch lowerText = first_match (bound_after [''under'']) lowerText"

definition overMatch :: "string \<Rightarrow> string option" where
  "overMatch lowerText = first_match (bound_after [''over'', ''above'', ''more than'']) lowerText"

text \<open>
  \<open>/\$?(...)\s*[-\<dots>]\s*\$?(...)/i\<close>: two groups around a dash. Of the three dashes
  of the class only the hyphen is an ASCII character.
\<close>

definition range_at :: "string \<Rightarrow> (string \<times> string) option" where
  "range_at s =
     (case price_token (opt_dollar s) of
        None \<Rightarrow> None
      | Some (g1, r) \<Rightarrow>
          (case skip_spaces r of
             [] \<Rightarrow> None
           | c # r' \<Rightarrow>
               if c = CHR ''-''
               then map_option (\<lambda>(g2, _). (g1, g2)) (price_token (opt_dollar (skip_spaces r')))
               else None))"

definition rangeMatch :: "string \<Rightarrow> (string \<times> string) option" where
  "rangeMatch lowerText = first_match range_at lowerText"

text \<open>
  \<open>parseInt(clean, 10)\<close> reads the digits at the head of the string. Every string it
  is given here starts with a digit, so the result NaN does not arise.
\<close>

definition digit_value :: "char \<Rightarrow> nat" where
  "digit_value c = of_char c - 48"

definition parseInt :: "string \<Rightarrow> nat" where
  "parseInt s = foldl (\<lambda>n c. 10 * n + digit_value c) 0 (takeWhile isDigit s)"

text \<open>\<open>parsePrice\<close>: \<open>priceStr.replace(/[,k]/gi, '')\<close> drops every comma and every
  letter k, then the number is scaled when the group contains the letter k.\<close>

definition parsePrice :: "string \<Rightarrow> nat" where
  "parsePrice priceStr =
     (let clean = filter (\<lambda>c. c \<notin> set '',kK'') priceStr;
          num = parseInt clean
      in if includes_str (toLowerCase priceStr) ''k'' then num * 1000 else num)"

text \<open>\<open>extractPriceRange\<close> of services/nlu.ts.\<close>

definition extractPriceRange :: "string \<Rightarrow> PriceRange" where
  "extractPriceRange text =
    (let lowerText = toLowerCase text;
         range = \<lparr>min_bound = None, max_bound = None\<rparr>;
         range = (if includes_str lowerText ''affordable'' \<or> includes_str lowerText ''budget''
                     \<or> includes_str lowerText ''cheap''
                  then range\<lparr>max_bound := Some 30000\<rparr> else range);
         range = (if includes_str lowerText ''luxury'' \<or> includes_str lowerText ''premium''
                     \<or> includes_str lowerText ''high-end''
                  then range\<lparr>min_bound := Some 50000\<rparr> else range);
         range = (case underMatch lowerText of
                    Some g \<Rightarrow> range\<lparr>max_bound := Some (parsePrice g)\<rparr>
                  | None \<Rightarrow> range);
         range = (case overMatch lowerText of
                    Some g \<Rightarrow> range\<lparr>min_bound := Some (parsePrice g)\<rparr>
                  | None \<Rightarrow> range);
         range = (case rangeMatch lowerText of
                    Some (g1, g2) \<Rightarrow>
                      range\<lparr>min_bound := Some (parsePrice g1), max_bound := Some (parsePrice g2)\<rparr>
                  | None \<Rightarrow> range)
     in range)"

text \<open>\<open>extractPriceRange\<close> of utils/nlu.js: the keyword bounds come from the table
  \<open>PRICE_KEYWORDS\<close>, every entry of which is tried in turn, a later one overwriting
  an earlier one.\<close>

datatype bounds = Min nat | Max nat

definition PRICE_KEYWORDS :: "(string \<times> bounds) list" where
  "PRICE_KEYWORDS =
    [(''affordable'', Max 30000), (''budget'', Max 25000), (''cheap'', Max 25000),
     (''economical'', Max 30000), (''luxury'', Min 50000), (''premium'', Min 40000),
     (''expensive'', Min 40000), (''high-end'', Min 50000)]"

fun price_keywords :: "(string \<times> bounds) list \<Rightarrow> string \<Rightarrow> PriceRange \<Rightarrow> PriceRange" where
  "price_keywords [] lowerText range' = range'"
| "price_keywords ((keyword, b) # rest) lowerText range' =
     price_keywords rest lowerText
       (if includes_str lowerText keyword
        then (case b of Min v \<Rightarrow> range'\<lparr>min_bound := Some v\<rparr>
                      | Max v \<Rightarrow> range'\<lparr>max_bound := Some v\<rparr>)
        else range')"

definition extractPriceRange_js :: "string \<Rightarrow> PriceRange" where
  "extractPriceRange_js text =
    (let lowerText = toLowerCase text;
         range = \<lparr>min_bound = None, max_bound = None\<rparr>;
         range = price_keywords PRICE_KEYWORDS lowerText range;
         range = (case underMatch lowerText of
                    Some g \<Rightarrow> range\<lparr>max_bound := Some (parsePrice g)\<rparr>
                  | None \<Rightarrow> range);
         range = (case overMatch lowerText of
                    Some g \<Rightarrow> range\<lparr>min_bound := Some (parsePrice g)\<rparr>
                  | None \<Rightarrow> range);
         range = (case rangeMatch lowerText of
                    Some (g1, g2) \<Rightarrow>
                      range\<lparr>min_bound := Some (parsePrice g1), max_bound := Some (parsePrice g2)\<rparr>
                  | None \<Rightarrow> range)
     in range)"

section \<open>Properties of the financing engine\<close>

subsection \<open>Rounding\<close>




subsection \<open>Validation\<close>

text \<open>The purchase calculator rejects every input outside the documented domain.\<close>

lemma calculatePurchase_validates:
  assumes "price p \<le> 0 \<or> termMonths p \<le> 0 \<or> downPayment p < 0 \<or> tradeInValue p < 0
           \<or> taxRate p < 0 \<or> 1 < taxRate p"
  shows "isl (calculatePurchase p)"
  using assms by (auto simp add: calculatePurchase_def)

text \<open>The lease and subscription calculators do reject a price or a term that is not
  positive, and the lease calculator a negative down payment.\<close>

lemma calculateLease_validates:
  assumes "price p \<le> 0 \<or> termMonths p \<le> 0 \<or> downPayment p < 0"
  shows "isl (calculateLease p)"
  using assms by (auto simp add: calculateLease_def)

lemma calculateSubscription_validates:
  assumes "price p \<le> 0 \<or> termMonths p \<le> 0"
  shows "isl (calculateSubscription p)"
  using assms by (auto simp add: calculateSubscription_def)

text \<open>
  C1. Every calculator is to throw when the price or the term is not positive, when the
  down payment or the trade-in value is negative, or when the tax rate lies outside
  the interval from 0 to 1. The lease calculator has no check of the trade-in value
  or of the tax rate, and the subscription calculator none of the down payment
  either: on the test fixture with a down payment of -1000, a trade-in value of
  -1000 or a tax rate of 1.5 the purchase calculator throws, while the other two
  return a payment wherever they lack the check.
\<close>

theorem validation_gaps:
  "isl (calculatePurchase (baseParams\<lparr>downPayment := - 1000\<rparr>))
   \<and> map_sum id monthlyPayment (calculateSubscription (baseParams\<lparr>downPayment := - 1000\<rparr>))
       = Inr 584
   \<and> isl (calculatePurchase (baseParams\<lparr>tradeInValue := - 1000\<rparr>))
   \<and> map_sum id monthlyPayment (calculateLease (baseParams\<lparr>tradeInValue := - 1000\<rparr>))
       = Inr 358
   \<and> map_sum id monthlyPayment (calculateSubscription (baseParams\<lparr>tradeInValue := - 1000\<rparr>))
       = Inr 564
   \<and> isl (calculatePurchase (baseParams\<lparr>taxRate := 1.5\<rparr>))
   \<and> map_sum id monthlyPayment (calculateLease (baseParams\<lparr>taxRate := 1.5\<rparr>))
       = Inr 1147
   \<and> map_sum id monthlyPayment (calculateSubscription (baseParams\<lparr>taxRate := 1.5\<rparr>))
       = Inr 980"
  by (simp add: baseParams_def calculatePurchase_def calculateLease_def
        calculateSubscription_def Let_def residual_or_default_def Math_round_def)

subsection \<open>The three scenarios on the test fixture\<close>

lemma pow_base: "Math_pow (2411 / 2400) 60 = (2411 / 2400) ^ 60"
  by (simp add: Math_pow_def)

lemma purchase_base_payment:
  "Math_round (30400 * (11 / 2400) * Math_pow (2411 / 2400) 60
               / (Math_pow (2411 / 2400) 60 - 1)) = 581"
  unfolding pow_base Math_round_def
  by (simp add: floor_eq_iff field_simps)

lemma purchase_base:
  "map_sum id monthlyPayment (calculatePurchase baseParams) = Inr 581"
proof -
  have "map_sum id monthlyPayment (calculatePurchase baseParams)
        = Inr (Math_round (30400 * (11 / 2400) * Math_pow (2411 / 2400) 60
               / (Math_pow (2411 / 2400) 60 - 1)))"
    by (simp add: baseParams_def calculatePurchase_def Let_def)
  then show ?thesis by (simp only: purchase_base_payment)
qed

lemma lease_base:
  "map_sum id monthlyPayment (calculateLease baseParams) = Inr 339"
  by (simp add: baseParams_def calculateLease_def Let_def residual_or_default_def Math_round_def)

lemma subscription_base:
  "map_sum id monthlyPayment (calculateSubscription baseParams) = Inr 554"
  by (simp add: baseParams_def calculateSubscription_def Let_def Math_round_def)

text \<open>
  C2. On the test fixture the subscription payment is to exceed both the lease payment
  and the purchase payment. The engine returns 554 a month for the subscription, 339
  for the lease and 581 for the purchase: the subscription exceeds the lease, not the
  purchase.
\<close>

theorem all_scenarios_base:
  "map_sum id (monthlyPayment \<circ> subscription) (calculateAllScenarios baseParams) = Inr 554
   \<and> map_sum id (monthlyPayment \<circ> lease) (calculateAllScenarios baseParams) = Inr 339
   \<and> map_sum id (monthlyPayment \<circ> buy) (calculateAllScenarios baseParams) = Inr 581"
  using purchase_base lease_base subscription_base
  by (auto simp add: calculateAllScenarios_def split: sum.splits)

subsection \<open>Purchase\<close>






subsection \<open>Lease\<close>




text \<open>Rounding to double precision, evaluated: when the scaled argument lies between
  2^52 and 2^53 the result is the nearest integer over the scale, the even one at a
  tie.\<close>

lemma round_even_near:
  assumes "of_int m - 1 / 2 < y" and "y < of_int m + 1 / 2"
  shows "round_even y = m"
proof (cases "of_int m \<le> y")
  case True
  with assms have "\<lfloor>y\<rfloor> = m" by linarith
  with assms show ?thesis by (simp add: round_even_def Let_def)
next
  case False
  with assms have "\<lfloor>y\<rfloor> = m - 1" by linarith
  with assms False show ?thesis by (simp add: round_even_def Let_def)
qed

lemma round_even_tie:
  assumes "y = of_int m + 1 / 2" and "even m"
  shows "round_even y = m"
proof -
  from assms have "\<lfloor>y\<rfloor> = m" by linarith
  with assms show ?thesis by (simp add: round_even_def Let_def)
qed

lemma fl64_scaled:
  assumes "2 ^ 52 \<le> \<bar>x\<bar> * 2 ^ n" and "\<bar>x\<bar> * 2 ^ n < 2 ^ 53"
  shows "fl64 x = of_int (round_even (x * 2 ^ n)) / 2 ^ n"
proof -
  from assms have nz: "x \<noteq> 0" by auto
  then have pos: "0 < \<bar>x\<bar>" by simp
  have p: "2 powr (of_int (52 - int n)) = (2::real) ^ 52 / 2 ^ n"
    by (simp add: powr_diff powr_realpow)
  have q: "2 powr (of_int (52 - int n + 1)) = (2::real) ^ 53 / 2 ^ n"
    by (simp add: powr_diff powr_realpow add.commute powr_add)
  have lo: "2 powr (of_int (52 - int n)) \<le> \<bar>x\<bar>"
    unfolding p using assms(1) by (simp add: field_simps)
  have hi: "\<bar>x\<bar> < 2 powr (of_int (52 - int n + 1))"
    unfolding q using assms(2) by (simp add: field_simps)
  have e: "\<lfloor>log 2 \<bar>x\<bar>\<rfloor> = 52 - int n"
    using pos lo hi by (simp add: floor_log_eq_powr_iff)
  have u: "2 powr (- real n) = 1 / (2::real) ^ n"
    by (simp add: powr_minus powr_realpow field_simps)
  show ?thesis using nz by (simp add: fl64_def Let_def e u)
qed

lemma fl64_near:
  assumes "2 ^ 52 \<le> \<bar>x\<bar> * 2 ^ n" and "\<bar>x\<bar> * 2 ^ n < 2 ^ 53"
    and "of_int m - 1 / 2 < x * 2 ^ n" and "x * 2 ^ n < of_int m + 1 / 2"
  shows "fl64 x = of_int m / 2 ^ n"
  using fl64_scaled [OF assms(1,2)] round_even_near [OF assms(3,4)] by simp

lemma fl64_tie:
  assumes "2 ^ 52 \<le> \<bar>x\<bar> * 2 ^ n" and "\<bar>x\<bar> * 2 ^ n < 2 ^ 53"
    and "x * 2 ^ n = of_int m + 1 / 2" and "even m"
  shows "fl64 x = of_int m / 2 ^ n"
  using fl64_scaled [OF assms(1,2)] round_even_tie [OF assms(3,4)] by simp

lemma fl64_zero: "fl64 0 = 0"
  by (simp add: fl64_def)

text \<open>With exact arithmetic the parametrised calculator is the calculator above.\<close>

lemma calculateLease_fl_exact: "calculateLease_fl (\<lambda>x. x) p = calculateLease p"
  by (simp add: calculateLease_fl_def calculateLease_def residual_or_default_def Let_def
        split: option.splits)

text \<open>The operations of the engine on the lease \<open>leaseTie\<close>, one by one.\<close>

lemma fl64_tax: "fl64 (16645 * 0) = 0"
  by (simp add: fl64_zero)

lemma fl64_adjusted: "fl64 (16645 + 0) = 16645"
  using fl64_near [of 16645 38 4575342761082880] by simp

lemma fl64_net: "fl64 (16645 - 0) = 16645"
  using fl64_near [of 16645 38 4575342761082880] by simp

lemma fl64_055: "fl64 0.55 = 4953959590107546 / 2 ^ 53"
  using fl64_near [of "0.55" 53 4953959590107546] by simp

lemma fl64_default: "fl64 (16645 * (4953959590107546 / 2 ^ 53)) = 5032877037191168 / 2 ^ 39"
  using fl64_near [of "16645 * (4953959590107546 / 2 ^ 53)" 39 5032877037191168] by simp

lemma round_default: "Math_round (5032877037191168 / 2 ^ 39) = 9155"
  by (simp add: Math_round_def floor_eq_iff)

lemma fl64_depreciation: "fl64 (16645 - 9155) = 7490"
  using fl64_near [of 7490 40 8235342092042240] by simp

lemma fl64_monthlyDepreciation: "fl64 (7490 / 60) = 8784364898178389 / 2 ^ 46"
  using fl64_near [of "7490 / 60" 46 8784364898178389] by simp

lemma fl64_moneyFactor: "fl64 (5.5 / 2400) = 5284223562781382 / 2 ^ 61"
  using fl64_near [of "5.5 / 2400" 61 5284223562781382] by simp

lemma fl64_sum: "fl64 (16645 + 9155) = 25800"
  using fl64_near [of 25800 38 7091849999155200] by simp

lemma fl64_monthlyFinance:
  "fl64 (25800 * (5284223562781382 / 2 ^ 61)) = 8321103999008768 / 2 ^ 47"
  using fl64_near [of "25800 * (5284223562781382 / 2 ^ 61)" 47 8321103999008768] by simp

lemma fl64_monthlyPayment:
  "fl64 (8784364898178389 / 2 ^ 46 + 8321103999008768 / 2 ^ 47) = 6472458448841386 / 2 ^ 45"
  using fl64_tie [of "8784364898178389 / 2 ^ 46 + 8321103999008768 / 2 ^ 47" 45 6472458448841386]
  by simp

lemma fl64_total: "fl64 (6472458448841386 / 2 ^ 45 * 60) = 6067929795788799 / 2 ^ 39"
  using fl64_near [of "6472458448841386 / 2 ^ 45 * 60" 39 6067929795788799] by simp

lemma fl64_total_plus: "fl64 (6067929795788799 / 2 ^ 39 + 0) = 6067929795788799 / 2 ^ 39"
  using fl64_near [of "6067929795788799 / 2 ^ 39" 39 6067929795788799] by simp

lemma round_monthlyPayment: "Math_round (6472458448841386 / 2 ^ 45) = 184"
  by (simp add: Math_round_def floor_eq_iff)

lemma round_total: "Math_round (6067929795788799 / 2 ^ 39) = 11037"
  by (simp add: Math_round_def floor_eq_iff)

lemmas fl64_leaseTie = fl64_tax fl64_adjusted fl64_net fl64_055 fl64_default round_default
  fl64_depreciation fl64_monthlyDepreciation fl64_moneyFactor fl64_sum fl64_monthlyFinance
  fl64_monthlyPayment fl64_total fl64_total_plus

text \<open>
  C7. For an input on which the lease calculator returns, the payment before rounding
  is the depreciation (net amount less residual, over the term) plus the finance
  charge (net amount plus residual, times APR over 2400), and the total cost before
  rounding is that payment times the term plus down payment plus trade-in value; the
  result holds both rounded by \<open>Math.round\<close>. Every operation is taken in the
  arithmetic \<open>fl\<close> of the engine, whatever that rounding is, and the residual is the
  caller's value when it is present and not zero, the rounded 55% of the price
  otherwise.
\<close>

theorem calculateLease_formula:
  assumes "0 < price p" and "0 < termMonths p" and "0 \<le> downPayment p"
    and "net = fl (fl (fl (price p + fl (price p * taxRate p)) - tradeInValue p) - downPayment p)"
    and "res = (case residualValue p of
                  None \<Rightarrow> Math_round (fl (price p * fl 0.55))
                | Some v \<Rightarrow> if v = 0 then Math_round (fl (price p * fl 0.55)) else v)"
    and "res < net"
    and "pay = fl (fl (fl (net - res) / termMonths p) + fl (fl (net + res) * fl (apr p / 2400)))"
  shows "\<exists>r. calculateLease_fl fl p = Inr r
     \<and> monthlyPayment r = Math_round pay
     \<and> totalCost r = Math_round (fl (fl (fl (pay * termMonths p) + downPayment p)
                                      + tradeInValue p))"
  using assms by (simp add: calculateLease_fl_def Let_def)

text \<open>In double precision the lease \<open>leaseTie\<close> pays 184 a month and costs 11037
  in total.\<close>

theorem calculateLease_formula_witness:
  "\<exists>r. calculateLease_fl fl64 leaseTie = Inr r \<and> monthlyPayment r = 184 \<and> totalCost r = 11037"
proof -
  have sel: "price leaseTie = 16645" "termMonths leaseTie = 60" "downPayment leaseTie = 0"
    "tradeInValue leaseTie = 0" "taxRate leaseTie = 0" "apr leaseTie = 5.5"
    "residualValue leaseTie = None"
    by (simp_all add: leaseTie_def)
  have net: "(16645::real) = fl64 (fl64 (fl64 (price leaseTie
               + fl64 (price leaseTie * taxRate leaseTie)) - tradeInValue leaseTie)
               - downPayment leaseTie)"
    by (simp only: sel fl64_leaseTie)
  have res: "(9155::real) = (case residualValue leaseTie of
                  None \<Rightarrow> Math_round (fl64 (price leaseTie * fl64 0.55))
                | Some v \<Rightarrow> if v = 0 then Math_round (fl64 (price leaseTie * fl64 0.55)) else v)"
    by (simp only: sel fl64_leaseTie option.case)
  have pay: "(6472458448841386 / 2 ^ 45 :: real)
             = fl64 (fl64 (fl64 (16645 - 9155) / termMonths leaseTie)
                     + fl64 (fl64 (16645 + 9155) * fl64 (apr leaseTie / 2400)))"
    by (simp only: sel fl64_leaseTie)
  have tot: "fl64 (fl64 (fl64 (6472458448841386 / 2 ^ 45 * termMonths leaseTie)
               + downPayment leaseTie) + tradeInValue leaseTie) = 6067929795788799 / 2 ^ 39"
    by (simp only: sel fl64_leaseTie)
  from calculateLease_formula [of leaseTie 16645 fl64 9155 "6472458448841386 / 2 ^ 45",
         OF _ _ _ net res _ pay]
  show ?thesis
    unfolding tot round_monthlyPayment round_total by (simp add: sel)
qed

text \<open>
  C10. A lease input whose caller supplies a residual of 0 is treated exactly as one
  whose residual is omitted: the default of 55% of the price, rounded, takes its place.
\<close>

theorem calculateLease_zero_residual:
  "calculateLease (p\<lparr>residualValue := Some 0\<rparr>) = calculateLease (p\<lparr>residualValue := None\<rparr>)
   \<and> (0 < price p \<and> 0 < termMonths p \<and> 0 \<le> downPayment p
        \<and> Math_round (price p * 0.55) < net_amount p
      \<longrightarrow> (\<exists>r. calculateLease (p\<lparr>residualValue := Some 0\<rparr>) = Inr r
             \<and> residualValue' r = Some (Math_round (price p * 0.55))))"
  by (simp add: calculateLease_def Let_def net_amount_def residual_or_default_def)

theorem calculateLease_zero_residual_witness:
  "calculateLease (baseParams\<lparr>termMonths := 36, residualValue := Some 0\<rparr>)
     = calculateLease (baseParams\<lparr>termMonths := 36, residualValue := None\<rparr>)
   \<and> (\<exists>r. calculateLease (baseParams\<lparr>termMonths := 36, residualValue := Some 0\<rparr>) = Inr r
          \<and> residualValue' r = Some 16500)"
proof -
  let ?p = "baseParams\<lparr>termMonths := 36\<rparr>"
  have r: "Math_round (price ?p * 0.55) = 16500"
    by (simp add: baseParams_def Math_round_def)
  have h: "0 < price ?p \<and> 0 < termMonths ?p \<and> 0 \<le> downPayment ?p
           \<and> Math_round (price ?p * 0.55) < net_amount ?p"
    unfolding r by (simp add: baseParams_def net_amount_def)
  from calculateLease_zero_residual [of ?p] h show ?thesis
    unfolding r by blast
qed

subsection \<open>Subscription\<close>



section \<open>Properties of the natural-language understanding\<close>

subsection \<open>Lower case\<close>

lemma toLowerChar_idem: "toLowerChar (toLowerChar c) = toLowerChar c"
  by (simp add: toLowerChar_def Let_def)

lemma toLowerCase_idem: "toLowerCase (toLowerCase text) = toLowerCase text"
  by (simp add: toLowerCase_def toLowerChar_idem)

lemma includes_str_toLowerCase:
  assumes "includes_str text s"
  shows "includes_str (toLowerCase text) (toLowerCase s)"
  using assms unfolding includes_str_def toLowerCase_def by (rule map_mono_sublist)

subsection \<open>Intent\<close>

text \<open>In services/nlu.ts a compare keyword anywhere in the text decides the intent,
  whatever else the text contains.\<close>

lemma detectIntent_compare_first:
  assumes "kw \<in> set [''vs'', ''versus'', ''compare'', ''compared to'']"
    and "includes_str text kw"
  shows "detectIntent text = Compare"
proof -
  from assms(1) have lower: "toLowerCase kw = kw"
    by (auto simp add: toLowerCase_def toLowerChar_def)
  from assms(2) have "includes_str (toLowerCase text) kw"
    using includes_str_toLowerCase [of "text" kw] by (simp add: lower)
  with assms(1) have "test [''vs'', ''versus'', ''compared to'', ''compare to'', ''compare'']
                        (toLowerCase text)"
    unfolding test_def toLowerCase_idem by auto
  then show ?thesis by (simp add: detectIntent_def)
qed

text \<open>In services/nlu.ts the three tests are tried in the order compare, finance,
  filter, on the text with letter case ignored.\<close>

lemma detectIntent_precedence:
  "detectIntent text =
    (if test [''vs'', ''versus'', ''compared to'', ''compare to'', ''compare''] text
       then Compare
     else if test [''finance'', ''payment'', ''lease'', ''buy'', ''purchase'', ''monthly'',
                   ''afford'', ''price'', ''cost''] text
       then Finance
     else if test [''filter'', ''only'', ''just'', ''with'', ''has'', ''need'', ''must''] text
       then Filter
     else Search)"
  unfolding detectIntent_def Let_def test_def toLowerCase_idem by (rule refl)

text \<open>
  C3. A compare keyword is to decide the intent whatever else the text contains, then a
  finance keyword, then a filter keyword. In utils/nlu.js the search pattern is tried
  before the compare pattern and the filter pattern before the finance pattern: a
  comparison that begins with "show me" is classified as a search and a lease query
  that contains "with" as a filter, where services/nlu.ts answers compare and finance.
  On the example of the specification both agree.
\<close>

theorem detectIntent_js_pattern_order:
  "detectIntent_js ''show me the Camry vs Accord'' = Search
   \<and> detectIntent ''show me the Camry vs Accord'' = Compare
   \<and> detectIntent_js ''lease with low payment'' = Filter
   \<and> detectIntent ''lease with low payment'' = Finance
   \<and> detectIntent_js ''compare the price of the Camry vs Accord'' = Compare
   \<and> detectIntent ''compare the price of the Camry vs Accord'' = Compare"
  by code_simp

subsection \<open>Price range\<close>

text \<open>The numeric patterns are applied after the keywords, so a bound they find
  replaces the bound of a keyword.\<close>

lemma extractPriceRange_max_bound:
  "max_bound (extractPriceRange text) =
     (case rangeMatch (toLowerCase text) of
        Some (g1, g2) \<Rightarrow> Some (parsePrice g2)
      | None \<Rightarrow>
          (case underMatch (toLowerCase text) of
             Some g \<Rightarrow> Some (parsePrice g)
           | None \<Rightarrow>
               if includes_str (toLowerCase text) ''affordable''
                  \<or> includes_str (toLowerCase text) ''budget''
                  \<or> includes_str (toLowerCase text) ''cheap''
               then Some 30000 else None))"
  by (simp add: extractPriceRange_def Let_def split: option.splits)

lemma extractPriceRange_min_bound:
  "min_bound (extractPriceRange text) =
     (case rangeMatch (toLowerCase text) of
        Some (g1, g2) \<Rightarrow> Some (parsePrice g1)
      | None \<Rightarrow>
          (case overMatch (toLowerCase text) of
             Some g \<Rightarrow> Some (parsePrice g)
           | None \<Rightarrow>
               if includes_str (toLowerCase text) ''luxury''
                  \<or> includes_str (toLowerCase text) ''premium''
                  \<or> includes_str (toLowerCase text) ''high-end''
               then Some 50000 else None))"
  by (simp add: extractPriceRange_def Let_def split: option.splits)

lemmas parsePrice_eval = parsePrice_def parseInt_def digit_value_def isDigit_def
  includes_str_def toLowerCase_def toLowerChar_def sublist_code Let_def

text \<open>The examples of the specification.\<close>

lemma extractPriceRange_under_30k:
  "extractPriceRange ''under $30k'' = \<lparr>min_bound = None, max_bound = Some 30000\<rparr>"
proof -
  have "toLowerCase ''under $30k'' = ''under $30k''" by code_simp
  moreover have "underMatch ''under $30k'' = Some ''30k''" by code_simp
  moreover have "overMatch ''under $30k'' = None" by code_simp
  moreover have "rangeMatch ''under $30k'' = None" by code_simp
  moreover have "parsePrice ''30k'' = 30000" by (simp add: parsePrice_eval)
  ultimately show ?thesis
    by (simp add: extractPriceRange_def Let_def includes_str_def sublist_code)
qed

lemma extractPriceRange_range:
  "extractPriceRange ''$25,000-$35,000'' = \<lparr>min_bound = Some 25000, max_bound = Some 35000\<rparr>"
proof -
  have "toLowerCase ''$25,000-$35,000'' = ''$25,000-$35,000''" by code_simp
  moreover have "underMatch ''$25,000-$35,000'' = None" by code_simp
  moreover have "overMatch ''$25,000-$35,000'' = None" by code_simp
  moreover have "rangeMatch ''$25,000-$35,000'' = Some (''25,000'', ''35,000'')" by code_simp
  moreover have "parsePrice ''25,000'' = 25000" by (simp add: parsePrice_eval)
  moreover have "parsePrice ''35,000'' = 35000" by (simp add: parsePrice_eval)
  ultimately show ?thesis
    by (simp add: extractPriceRange_def Let_def includes_str_def sublist_code)
qed

lemma extractPriceRange_affordable:
  "extractPriceRange ''affordable'' = \<lparr>min_bound = None, max_bound = Some 30000\<rparr>"
proof -
  have "toLowerCase ''affordable'' = ''affordable''" by code_simp
  moreover have "underMatch ''affordable'' = None" by code_simp
  moreover have "overMatch ''affordable'' = None" by code_simp
  moreover have "rangeMatch ''affordable'' = None" by code_simp
  ultimately show ?thesis
    by (simp add: extractPriceRange_def Let_def includes_str_def sublist_code)
qed

lemma extractPriceRange_override:
  "extractPriceRange ''affordable SUV under $20k'' = \<lparr>min_bound = None, max_bound = Some 20000\<rparr>"
proof -
  have "toLowerCase ''affordable SUV under $20k'' = ''affordable suv under $20k''" by code_simp
  moreover have "underMatch ''affordable suv under $20k'' = Some ''20k''" by code_simp
  moreover have "overMatch ''affordable suv under $20k'' = None" by code_simp
  moreover have "rangeMatch ''affordable suv under $20k'' = None" by code_simp
  moreover have "parsePrice ''20k'' = 20000" by (simp add: parsePrice_eval)
  ultimately show ?thesis
    by (simp add: extractPriceRange_def Let_def includes_str_def sublist_code)
qed

text \<open>The suffix \<open>thousand\<close> is part of the group the patterns capture, and
  \<open>parsePrice\<close> scales only on the letter k.\<close>

lemma parsePrice_thousand: "parsePrice ''30thousand'' = 30"
  by (simp add: parsePrice_eval)

lemma underMatch_thousand: "underMatch ''under $30thousand'' = Some ''30thousand''"
  by code_simp

lemma extractPriceRange_under_thousand:
  "extractPriceRange ''under $30thousand'' = \<lparr>min_bound = None, max_bound = Some 30\<rparr>"
proof -
  have "toLowerCase ''under $30thousand'' = ''under $30thousand''" by code_simp
  moreover have "overMatch ''under $30thousand'' = None" by code_simp
  moreover have "rangeMatch ''under $30thousand'' = None" by code_simp
  ultimately show ?thesis
    by (simp add: extractPriceRange_def Let_def includes_str_def sublist_code
          underMatch_thousand parsePrice_thousand)
qed

lemma extractPriceRange_js_under_thousand:
  "extractPriceRange_js ''under $30thousand'' = \<lparr>min_bound = None, max_bound = Some 30\<rparr>"
proof -
  have "toLowerCase ''under $30thousand'' = ''under $30thousand''" by code_simp
  moreover have "overMatch ''under $30thousand'' = None" by code_simp
  moreover have "rangeMatch ''under $30thousand'' = None" by code_simp
  ultimately show ?thesis
    by (simp add: extractPriceRange_js_def Let_def PRICE_KEYWORDS_def includes_str_def
          sublist_code underMatch_thousand parsePrice_thousand)
qed

lemma extractPriceRange_over_thousand:
  "extractPriceRange ''over $40thousand'' = \<lparr>min_bound = Some 40, max_bound = None\<rparr>"
proof -
  have "toLowerCase ''over $40thousand'' = ''over $40thousand''" by code_simp
  moreover have "underMatch ''over $40thousand'' = None" by code_simp
  moreover have "overMatch ''over $40thousand'' = Some ''40thousand''" by code_simp
  moreover have "rangeMatch ''over $40thousand'' = None" by code_simp
  moreover have "parsePrice ''40thousand'' = 40" by (simp add: parsePrice_eval)
  ultimately show ?thesis
    by (simp add: extractPriceRange_def Let_def includes_str_def sublist_code)
qed

text \<open>
  C9. A bound after "under" is to become the upper bound and a bound after "over" the
  lower bound, scaled by 1000 when it carries the suffix k or thousand, and a numeric
  bound is to replace the bound of a keyword. The examples of the specification hold,
  and so does the replacement; with the suffix thousand the bound is not scaled:
  "under $30thousand" gives an upper bound of 30 and "over $40thousand" a lower bound
  of 40, in both variants of the extractor.
\<close>

theorem extractPriceRange_thousand_unscaled:
  "extractPriceRange ''under $30thousand'' = \<lparr>min_bound = None, max_bound = Some 30\<rparr>
   \<and> extractPriceRange_js ''under $30thousand'' = \<lparr>min_bound = None, max_bound = Some 30\<rparr>
   \<and> extractPriceRange ''over $40thousand'' = \<lparr>min_bound = Some 40, max_bound = None\<rparr>
   \<and> extractPriceRange ''under $30k'' = \<lparr>min_bound = None, max_bound = Some 30000\<rparr>
   \<and> extractPriceRange ''$25,000-$35,000'' = \<lparr>min_bound = Some 25000, max_bound = Some 35000\<rparr>
   \<and> extractPriceRange ''affordable'' = \<lparr>min_bound = None, max_bound = Some 30000\<rparr>
   \<and> extractPriceRange ''affordable SUV under $20k''
       = \<lparr>min_bound = None, max_bound = Some 20000\<rparr>"
  by (simp only: extractPriceRange_under_thousand extractPriceRange_js_under_thousand
        extractPriceRange_over_thousand extractPriceRange_under_30k extractPriceRange_range
        extractPriceRange_affordable extractPriceRange_override simp_thms)

end
